theory Spec2Isabelle
  imports Complex_Main
begin

section \<open>Shared values, animation descriptors and the application context\<close>

text \<open>
  The overlay component \<open>MessageOverlayWithContext\<close> keeps its animated state in shared
  values (\<open>useSharedValue\<close>). A shared value holds a current number and, possibly, an
  animation that is in flight on it. Numbers are modelled as reals: the arithmetic of the
  handlers is exact here, where the program computes in IEEE doubles.
\<close>

datatype overlay_kind = OvNone | OvMessage | OvGallery | OvAlert

text \<open>
  Calls that a worklet hands to the application context through \<open>runOnJS\<close>:
  \<open>runOnJS(setOverlay)(kind)\<close> and \<open>runOnJS(reset)()\<close>.
\<close>

datatype js_call = SetOverlay overlay_kind | Reset

text \<open>\<open>Easing.out(Easing.ease)\<close> is the only easing the component names.\<close>

datatype easing_fn = EaseOutEase

record timing_config =
  duration :: nat
  easing :: easing_fn

record spring_config =
  damping :: real
  mass :: real
  restDisplacementThreshold :: real
  restSpeedThreshold :: real
  stiffness :: real
  velocity :: real

text \<open>
  The two completion callbacks of the component, as closures: the one \<open>fadeScreen\<close>
  passes to \<open>withTiming\<close> captures the argument \<open>show\<close>; the one \<open>onFinish\<close>
  passes captures nothing.
\<close>

datatype callback = HideCallback bool | DismissCallback

text \<open>
  The body of each callback: the calls it hands to the application context when it runs.
  \<open>HideCallback show\<close> is \<open>() => { if (!show) { runOnJS(reset)(); } }\<close> and
  \<open>DismissCallback\<close> is \<open>() => { runOnJS(setOverlay)('none'); }\<close>. Neither reads the
  overlay kind.
\<close>

fun run_callback :: "callback \<Rightarrow> js_call list" where
  "run_callback (HideCallback show) = (if \<not> show then [Reset] else [])"
| "run_callback DismissCallback = [SetOverlay OvNone]"

text \<open>
  An animation descriptor as the component builds it: \<open>withSpring(toValue, config)\<close>,
  \<open>withTiming(toValue, config?, callback?)\<close> (a missing argument is \<open>None\<close>) and
  \<open>withDecay({velocity})\<close>.
\<close>

datatype animation =
    WithSpring real spring_config
  | WithTiming real "timing_config option" "callback option"
  | WithDecay real

record cell =
  cur :: real
  anim :: "animation option"

text \<open>
  Modelled from the spec: the animation library (react-native-reanimated) is not part of
  the repository. Following the spec's cancellation rule (``starting a new animation or a
  new gesture on a cell cancels any prior animation on that same cell; there is no
  queuing''), assigning a number to a shared value stores it and drops the animation in
  flight, assigning an animation replaces the one in flight and leaves the current number
  for the animation to start from, and \<open>cancelAnimation\<close> drops the animation in flight.
\<close>

definition assign_number :: "real \<Rightarrow> cell \<Rightarrow> cell" where
  "assign_number v c = \<lparr>cur = v, anim = None\<rparr>"

definition assign_animation :: "animation \<Rightarrow> cell \<Rightarrow> cell" where
  "assign_animation a c = c\<lparr>anim := Some a\<rparr>"

definition cancelAnimation :: "cell \<Rightarrow> cell" where
  "cancelAnimation c = c\<lparr>anim := None\<rparr>"

text \<open>
  The state the handlers of the component read and write: its shared values, the
  \<open>overlayOpacity\<close> shared value it receives as a prop, the overlay kind of the overlay
  context, and the calls handed to the application context so far, oldest first.
\<close>

record overlay_state =
  offsetY :: cell
  translateY :: cell
  scale :: cell
  showScreen :: cell
  overlayOpacity :: cell
  overlay :: overlay_kind
  js_calls :: "js_call list"

text \<open>
  The shared values as \<open>useSharedValue\<close> creates them at mount: \<open>offsetY\<close>,
  \<open>translateY\<close> and \<open>showScreen\<close> at 0, \<open>scale\<close> at 1.
\<close>

definition mounted :: "real \<Rightarrow> overlay_kind \<Rightarrow> overlay_state" where
  "mounted opacity kind =
     \<lparr>offsetY = \<lparr>cur = 0, anim = None\<rparr>,
      translateY = \<lparr>cur = 0, anim = None\<rparr>,
      scale = \<lparr>cur = 1, anim = None\<rparr>,
      showScreen = \<lparr>cur = 0, anim = None\<rparr>,
      overlayOpacity = \<lparr>cur = opacity, anim = None\<rparr>,
      overlay = kind,
      js_calls = []\<rparr>"

subsection \<open>The show and hide transition\<close>

text \<open>
  \<open>fadeScreen(show)\<close>: when showing, the offsets and the scale are reset first; then
  \<open>showScreen\<close> is given a spring towards 1, or a timing animation towards 0 whose
  callback calls \<open>reset\<close>.
\<close>

definition show_spring :: animation where
  "show_spring =
     WithSpring 1
       \<lparr>damping = 600, mass = 0.5, restDisplacementThreshold = 0.01,
        restSpeedThreshold = 0.01, stiffness = 200, velocity = 32\<rparr>"

definition hide_timing :: "bool \<Rightarrow> animation" where
  "hide_timing show =
     WithTiming 0 (Some \<lparr>duration = 150, easing = EaseOutEase\<rparr>) (Some (HideCallback show))"

definition fadeScreen :: "bool \<Rightarrow> overlay_state \<Rightarrow> overlay_state" where
  "fadeScreen show s =
     (let s1 = (if show
                then s\<lparr>offsetY := assign_number 0 (offsetY s),
                       translateY := assign_number 0 (translateY s),
                       scale := assign_number 1 (scale s)\<rparr>
                else s)
      in s1\<lparr>showScreen :=
               assign_animation (if show then show_spring else hide_timing show)
                 (showScreen s1)\<rparr>)"

text \<open>
  The effect on \<open>visible\<close>: \<open>fadeScreen(!!visible)\<close>, where \<open>visible\<close> is an optional
  boolean (\<open>Keyboard.dismiss()\<close> touches nothing of this state).
\<close>

definition visible_effect :: "bool option \<Rightarrow> overlay_state \<Rightarrow> overlay_state" where
  "visible_effect visible s = fadeScreen (visible = Some True) s"

subsection \<open>The pan gesture\<close>

text \<open>
  A pan event carries the vertical translation since the gesture began and the vertical
  velocity. The viewport helper \<open>vh\<close> (a percentage of the device height) lives in the
  utilities, outside the sources at hand, and is a parameter of the handlers.
\<close>

record pan_event =
  translationY :: real
  velocityY :: real

definition screenHeight :: "(real \<Rightarrow> real) \<Rightarrow> real" where
  "screenHeight vh = vh 100"

definition halfScreenHeight :: "(real \<Rightarrow> real) \<Rightarrow> real" where
  "halfScreenHeight vh = vh 50"

text \<open>
  Modelled from the spec: \<open>interpolate\<close> with \<open>Extrapolate.CLAMP\<close> belongs to the
  animation library. Over one input segment \<open>[x0, x1]\<close> and output segment
  \<open>[y0, y1]\<close> it is the linear map between the segments, held at \<open>y0\<close> below the
  input range and at \<open>y1\<close> above it.
\<close>

definition interpolate_clamp :: "real \<Rightarrow> real \<times> real \<Rightarrow> real \<times> real \<Rightarrow> real" where
  "interpolate_clamp x inp out =
     (case (inp, out) of
        ((x0, x1), (y0, y1)) \<Rightarrow>
          if x \<le> x0 then y0
          else if x1 \<le> x then y1
          else y0 + (x - x0) / (x1 - x0) * (y1 - y0))"

text \<open>\<open>onStart\<close>: cancel the animation of \<open>translateY\<close>, keep its value as the offset.\<close>

definition onStart :: "overlay_state \<Rightarrow> overlay_state" where
  "onStart s =
     (let s1 = s\<lparr>translateY := cancelAnimation (translateY s)\<rparr>
      in s1\<lparr>offsetY := assign_number (cur (translateY s1)) (offsetY s1)\<rparr>)"

text \<open>
  \<open>onActive\<close>: move by the translation of the event, then derive the overlay opacity and
  the scale from the new \<open>translateY\<close>.
\<close>

definition onActive :: "(real \<Rightarrow> real) \<Rightarrow> pan_event \<Rightarrow> overlay_state \<Rightarrow> overlay_state" where
  "onActive vh evt s =
     (let s1 = s\<lparr>translateY :=
                   assign_number (cur (offsetY s) + translationY evt) (translateY s)\<rparr>;
          s2 = s1\<lparr>overlayOpacity :=
                    assign_number
                      (interpolate_clamp (cur (translateY s1)) (0, halfScreenHeight vh)
                         (1, 0.75))
                      (overlayOpacity s1)\<rparr>
      in s2\<lparr>scale :=
               assign_number
                 (interpolate_clamp (cur (translateY s2)) (0, halfScreenHeight vh) (1, 0.85))
                 (scale s2)\<rparr>)"

text \<open>
  \<open>onFinish\<close>: the release. \<open>finalYPosition\<close> projects the translation a tenth of a
  second ahead; the first branch starts the dismissal, the other one the snap-back.
\<close>

definition finalYPosition :: "pan_event \<Rightarrow> real" where
  "finalYPosition evt = translationY evt + velocityY evt * 0.1"

definition commits_dismiss :: "(real \<Rightarrow> real) \<Rightarrow> pan_event \<Rightarrow> overlay_state \<Rightarrow> bool" where
  "commits_dismiss vh evt s \<longleftrightarrow>
     finalYPosition evt > halfScreenHeight vh \<and> cur (translateY s) > 0"

definition fade_out_timing :: animation where
  "fade_out_timing =
     WithTiming 0 (Some \<lparr>duration = 200, easing = EaseOutEase\<rparr>) (Some DismissCallback)"

definition onFinish :: "(real \<Rightarrow> real) \<Rightarrow> pan_event \<Rightarrow> overlay_state \<Rightarrow> overlay_state" where
  "onFinish vh evt s =
     (if commits_dismiss vh evt s then
        (let s1 = s\<lparr>translateY := cancelAnimation (translateY s)\<rparr>;
             s2 = s1\<lparr>overlayOpacity := assign_animation fade_out_timing (overlayOpacity s1)\<rparr>
         in s2\<lparr>translateY :=
                  assign_animation
                    (if velocityY evt > 1000
                     then WithDecay (velocityY evt)
                     else WithTiming (screenHeight vh)
                            (Some \<lparr>duration = 200, easing = EaseOutEase\<rparr>) None)
                    (translateY s2)\<rparr>)
      else
        (let s1 = s\<lparr>translateY := assign_animation (WithTiming 0 None None) (translateY s)\<rparr>;
             s2 = s1\<lparr>scale := assign_animation (WithTiming 1 None None) (scale s1)\<rparr>
         in s2\<lparr>overlayOpacity :=
                  assign_animation (WithTiming 1 None None) (overlayOpacity s2)\<rparr>))"

subsection \<open>Animations running to completion\<close>

text \<open>
  Modelled from the spec: the application context owns the overlay kind; \<open>setOverlay\<close>
  stores the kind it is given. \<open>reset\<close> belongs to the message overlay context and is
  recorded as a call only. Every call handed over is appended to \<open>js_calls\<close>.
\<close>

fun js_exec :: "overlay_state \<Rightarrow> js_call \<Rightarrow> overlay_state" where
  "js_exec s (SetOverlay k) = s\<lparr>overlay := k, js_calls := js_calls s @ [SetOverlay k]\<rparr>"
| "js_exec s Reset = s\<lparr>js_calls := js_calls s @ [Reset]\<rparr>"

datatype cell_id = CellOffsetY | CellTranslateY | CellScale | CellShowScreen | CellOverlayOpacity

fun get_cell :: "cell_id \<Rightarrow> overlay_state \<Rightarrow> cell" where
  "get_cell CellOffsetY s = offsetY s"
| "get_cell CellTranslateY s = translateY s"
| "get_cell CellScale s = scale s"
| "get_cell CellShowScreen s = showScreen s"
| "get_cell CellOverlayOpacity s = overlayOpacity s"

fun put_cell :: "cell_id \<Rightarrow> cell \<Rightarrow> overlay_state \<Rightarrow> overlay_state" where
  "put_cell CellOffsetY c s = s\<lparr>offsetY := c\<rparr>"
| "put_cell CellTranslateY c s = s\<lparr>translateY := c\<rparr>"
| "put_cell CellScale c s = s\<lparr>scale := c\<rparr>"
| "put_cell CellShowScreen c s = s\<lparr>showScreen := c\<rparr>"
| "put_cell CellOverlayOpacity c s = s\<lparr>overlayOpacity := c\<rparr>"

text \<open>The callback an animation descriptor carries, if any.\<close>

fun callback_of :: "animation \<Rightarrow> callback option" where
  "callback_of (WithSpring _ _) = None"
| "callback_of (WithTiming _ _ cb) = cb"
| "callback_of (WithDecay _) = None"

text \<open>
  Where a finished animation leaves the value: a spring and a timing animation at their
  target. The friction of a decay is the library's, so the value a decay stops at is not
  computed and the current value is kept.
\<close>

fun settled :: "animation \<Rightarrow> real \<Rightarrow> real" where
  "settled (WithSpring target _) v = target"
| "settled (WithTiming target _ _) v = target"
| "settled (WithDecay _) v = v"

text \<open>
  Modelled from the spec: the animation in flight on a cell completes. The cell takes
  its settled value and has no animation any more, and the callback of the animation, if
  it has one, runs: its calls reach the application context in order. A cell without an
  animation has nothing to complete.
\<close>

definition animation_done :: "cell_id \<Rightarrow> overlay_state \<Rightarrow> overlay_state" where
  "animation_done c s =
     (case anim (get_cell c s) of
        None \<Rightarrow> s
      | Some a \<Rightarrow>
          foldl js_exec
            (put_cell c \<lparr>cur = settled a (cur (get_cell c s)), anim = None\<rparr> s)
            (case callback_of a of None \<Rightarrow> [] | Some cb \<Rightarrow> run_callback cb))"

subsection \<open>A concrete device and a concrete drag\<close>

text \<open>
  A viewport 800 units high, the overlay shown on it with its spring settled, and the
  bubble dragged down by \<open>dy\<close> from rest.
\<close>

definition vh_800 :: "real \<Rightarrow> real" where
  "vh_800 p = 800 * p / 100"

definition shown :: overlay_state where
  "shown = animation_done CellShowScreen (visible_effect (Some True) (mounted 1 OvMessage))"

definition dragged :: "real \<Rightarrow> overlay_state" where
  "dragged dy = onActive vh_800 \<lparr>translationY = dy, velocityY = 0\<rparr> (onStart shown)"

section \<open>Render-time derivations of the overlay\<close>

text \<open>
  The props of \<open>MessageOverlayWithContext\<close> that the derivations below read, with the
  parts of a message, a reaction and an attachment they look at. A field the props type
  marks optional is an \<open>option\<close> (\<open>None\<close> for \<open>undefined\<close>). The fields \<open>type\<close> of
  a reaction and of an attachment and \<open>text\<close> of a message carry a prefix here.
\<close>

datatype alignment_side = AlignLeft | AlignRight

record reaction =
  reaction_type :: string
  user_id :: string

record attachment =
  attachment_type :: "string option"
  attachment_title :: string

record message =
  message_text :: string
  latest_reactions :: "reaction list option"
  quoted_message :: "string option"

record overlay_props =
  alignment :: "alignment_side option"
  message :: "message option"
  messageReactionTitle :: "string option"
  onlyEmojis :: bool
  otherAttachments :: "attachment list option"
  visible :: "bool option"

subsection \<open>Re-render suppression\<close>

text \<open>\<open>message?.latest_reactions\<close>: undefined when there is no message.\<close>

definition latest_of :: "overlay_props \<Rightarrow> reaction list option" where
  "latest_of props = (case message props of None \<Rightarrow> None | Some m \<Rightarrow> latest_reactions m)"

text \<open>
  \<open>Array.prototype.every\<close> with the index passed to the predicate.
\<close>

definition every_indexed :: "('a \<Rightarrow> nat \<Rightarrow> bool) \<Rightarrow> 'a list \<Rightarrow> bool" where
  "every_indexed f xs = list_all (\<lambda>(x, i). f x i) (zip xs [0..<length xs])"

text \<open>
  \<open>latestReactionsEqual\<close>: when both sides are arrays, the lengths agree and every
  reaction has the type of the reaction at its index on the other side (the index is in
  range there, the lengths being compared first and \<open>&&\<close> cutting short); otherwise
  the two sides are compared with \<open>===\<close>, and one of them being undefined they are
  identical only when both are.
\<close>

definition latestReactionsEqual :: "overlay_props \<Rightarrow> overlay_props \<Rightarrow> bool" where
  "latestReactionsEqual prevProps nextProps =
     (case (latest_of prevProps, latest_of nextProps) of
        (Some prev, Some nxt) \<Rightarrow>
          length prev = length nxt
          \<and> every_indexed (\<lambda>r index. reaction_type r = reaction_type (nxt ! index)) prev
      | (Some prev, None) \<Rightarrow> False
      | (None, Some nxt) \<Rightarrow> False
      | (None, None) \<Rightarrow> True)"

text \<open>\<open>areEqual\<close>, the comparison handed to \<open>React.memo\<close>: true means ``skip the render''.\<close>

definition areEqual :: "overlay_props \<Rightarrow> overlay_props \<Rightarrow> bool" where
  "areEqual prevProps nextProps =
     (if \<not> (visible prevProps = visible nextProps) then False
      else if \<not> (alignment prevProps = alignment nextProps) then False
      else if \<not> (messageReactionTitle prevProps = messageReactionTitle nextProps) then False
      else if \<not> latestReactionsEqual prevProps nextProps then False
      else True)"

text \<open>
  The spec's words for the fourth comparison: the ordered list of latest-reaction kinds
  of a prop set (absent when the message or its reaction list is).
\<close>

definition reaction_kinds :: "overlay_props \<Rightarrow> string list option" where
  "reaction_kinds props = map_option (map reaction_type) (latest_of props)"

subsection \<open>Bubble background\<close>

text \<open>The theme colours the bubble can take, by the name of the token.\<close>

datatype color_token = transparent | blue_alice | white_smoke | grey_gainsboro | grey_whisper

text \<open>
  The \<open>backgroundColor\<close> of the inner container, rendered only when there is a message:
  \<open>otherAttachments?.length\<close> is truthy for a non-empty list, whose first element is
  then read.
\<close>

definition backgroundColor :: "overlay_props \<Rightarrow> message \<Rightarrow> color_token" where
  "backgroundColor props msg =
     (if onlyEmojis props \<and> quoted_message msg = None then transparent
      else (case otherAttachments props of
              Some (first # _) \<Rightarrow>
                if attachment_type first = Some ''giphy'' then transparent else blue_alice
            | _ \<Rightarrow> if alignment props = Some AlignLeft then white_smoke else grey_gainsboro))"

text \<open>
  Two consecutive prop sets of an overlay: the message text and the users of the
  reactions differ, the four compared parts do not. A third one has the two reaction
  kinds in the other order.
\<close>

definition props_before :: overlay_props where
  "props_before =
     \<lparr>alignment = Some AlignLeft,
      message = Some \<lparr>message_text = ''hi'',
                      latest_reactions = Some [\<lparr>reaction_type = ''like'', user_id = ''u1''\<rparr>,
                                               \<lparr>reaction_type = ''love'', user_id = ''u2''\<rparr>],
                      quoted_message = None\<rparr>,
      messageReactionTitle = Some ''Message Reactions'',
      onlyEmojis = False,
      otherAttachments = None,
      visible = Some True\<rparr>"

definition props_after :: overlay_props where
  "props_after =
     \<lparr>alignment = Some AlignLeft,
      message = Some \<lparr>message_text = ''hello'',
                      latest_reactions = Some [\<lparr>reaction_type = ''like'', user_id = ''u3''\<rparr>,
                                               \<lparr>reaction_type = ''love'', user_id = ''u4''\<rparr>],
                      quoted_message = None\<rparr>,
      messageReactionTitle = Some ''Message Reactions'',
      onlyEmojis = False,
      otherAttachments = None,
      visible = Some True\<rparr>"

definition props_reordered :: overlay_props where
  "props_reordered =
     \<lparr>alignment = Some AlignLeft,
      message = Some \<lparr>message_text = ''hi'',
                      latest_reactions = Some [\<lparr>reaction_type = ''love'', user_id = ''u2''\<rparr>,
                                               \<lparr>reaction_type = ''like'', user_id = ''u1''\<rparr>],
                      quoted_message = None\<rparr>,
      messageReactionTitle = Some ''Message Reactions'',
      onlyEmojis = False,
      otherAttachments = None,
      visible = Some True\<rparr>"

section \<open>The channel files screen\<close>

text \<open>
  \<open>ChannelFilesScreen\<close> groups the file attachments of the fetched messages by month in
  an effect and renders a \<open>SectionList\<close>. The month of a message is
  \<open>Dayjs(created_at).format('MMM YYYY')\<close>; the date library is a parameter \<open>fmt\<close>.
\<close>

record file_message =
  created_at :: string
  attachments :: "attachment list option"

record file_section =
  data :: "attachment list"
  title :: string

text \<open>
  One round of \<open>messages.forEach\<close>. The object \<open>sections\<close> is a list of keys and
  values in insertion order, the order \<open>Object.values\<close> reads it in (no month name is
  an integer key).
\<close>

definition add_message :: "(string \<Rightarrow> string) \<Rightarrow> (string \<times> file_section) list \<Rightarrow> file_message
    \<Rightarrow> (string \<times> file_section) list" where
  "add_message fmt secs m =
     (let month = fmt (created_at m);
          secs1 = (if map_of secs month = None
                   then secs @ [(month, \<lparr>data = [], title = month\<rparr>)]
                   else secs);
          files = filter (\<lambda>a. attachment_type a = Some ''file'')
                    (case attachments m of None \<Rightarrow> [] | Some as \<Rightarrow> as)
      in map (\<lambda>(k, sec). if k = month then (k, sec\<lparr>data := data sec @ files\<rparr>) else (k, sec))
           secs1)"

definition grouped_sections :: "(string \<Rightarrow> string) \<Rightarrow> file_message list \<Rightarrow> file_section list" where
  "grouped_sections fmt messages = map snd (foldl (add_message fmt) [] messages)"

record files_screen =
  sections :: "file_section list"
  loading :: bool

text \<open>The effect on \<open>messages\<close>: \<open>setSections(Object.values(sections))\<close>.\<close>

definition sections_effect :: "(string \<Rightarrow> string) \<Rightarrow> file_message list \<Rightarrow> files_screen \<Rightarrow> files_screen" where
  "sections_effect fmt messages st = st\<lparr>sections := grouped_sections fmt messages\<rparr>"

text \<open>
  The render: the \<open>SectionList\<close> is mounted when there are sections in the state or
  nothing is loading. The result is the \<open>sections\<close> prop the list is given, \<open>None\<close>
  when no list is mounted.
\<close>

definition rendered_sections_prop :: "files_screen \<Rightarrow> file_section list option" where
  "rendered_sections_prop st =
     (if length (sections st) > 0 \<or> \<not> loading st then Some [] else None)"

text \<open>
  What a \<open>SectionList\<close> (of react-native) shows for its \<open>sections\<close> prop: the
  \<open>ListEmptyComponent\<close> for no sections, the sections otherwise.
\<close>

datatype list_content = ListEmptyComponent | SectionRows "file_section list"

definition section_list_shows :: "file_section list \<Rightarrow> list_content" where
  "section_list_shows secs = (if secs = [] then ListEmptyComponent else SectionRows secs)"

text \<open>Two fetched messages of January 2021, one with a file and an image.\<close>

definition january :: "string \<Rightarrow> string" where
  "january d = (if take 7 d = ''2021-01'' then ''Jan 2021'' else ''Feb 2021'')"

definition two_messages :: "file_message list" where
  "two_messages =
     [\<lparr>created_at = ''2021-01-05T10:00:00Z'',
       attachments = Some [\<lparr>attachment_type = Some ''file'', attachment_title = ''a.pdf''\<rparr>,
                           \<lparr>attachment_type = Some ''image'', attachment_title = ''b.png''\<rparr>]\<rparr>,
      \<lparr>created_at = ''2021-01-09T10:00:00Z'', attachments = None\<rparr>]"

section \<open>Properties\<close>

lemmas cell_ops = assign_number_def assign_animation_def cancelAnimation_def

lemmas drag_defs =
  dragged_def shown_def mounted_def visible_effect_def fadeScreen_def show_spring_def
  onStart_def onActive_def vh_800_def halfScreenHeight_def screenHeight_def
  interpolate_clamp_def animation_done_def

text \<open>
  C5. Whenever a show transition begins, the animated state is reset before animating:
  \<open>translateY\<close> and its base offset \<open>offsetY\<close> are set to 0, \<open>scale\<close> is set to 1
  (no animation left in flight on any of them), and \<open>showScreen\<close> is driven towards 1 by
  a spring with damping 600, mass 0.5 and rest displacement and rest speed thresholds
  0.01, starting from its current value.
\<close>

theorem show_resets_then_springs:
  "translateY (visible_effect (Some True) s) = \<lparr>cur = 0, anim = None\<rparr>
   \<and> offsetY (visible_effect (Some True) s) = \<lparr>cur = 0, anim = None\<rparr>
   \<and> scale (visible_effect (Some True) s) = \<lparr>cur = 1, anim = None\<rparr>
   \<and> cur (showScreen (visible_effect (Some True) s)) = cur (showScreen s)
   \<and> (\<exists>cfg. anim (showScreen (visible_effect (Some True) s)) = Some (WithSpring 1 cfg)
         \<and> damping cfg = 600 \<and> mass cfg = 0.5
         \<and> restDisplacementThreshold cfg = 0.01 \<and> restSpeedThreshold cfg = 0.01)
   \<and> overlay (visible_effect (Some True) s) = overlay s
   \<and> js_calls (visible_effect (Some True) s) = js_calls s"
  by (simp add: visible_effect_def fadeScreen_def assign_number_def assign_animation_def
      show_spring_def)

text \<open>
  C1, as the program has it. A release whose projected position
  \<open>translationY + velocityY * 0.1\<close> does not exceed \<open>halfScreenHeight\<close>, or that finds
  \<open>translateY\<close> not positive, snaps back: \<open>translateY\<close>, \<open>scale\<close> and the
  overlay opacity are given default timing animations (no configuration, no callback)
  towards 0, 1 and 1, nothing is handed to the application context and the overlay kind
  stays; when the three animations have completed the values are 0, 1 and 1 and still
  nothing has been handed over.
\<close>

theorem release_snaps_back:
  assumes "translationY evt + velocityY evt * 0.1 \<le> halfScreenHeight vh
           \<or> cur (translateY s) \<le> 0"
  shows "anim (translateY (onFinish vh evt s)) = Some (WithTiming 0 None None)
   \<and> anim (scale (onFinish vh evt s)) = Some (WithTiming 1 None None)
   \<and> anim (overlayOpacity (onFinish vh evt s)) = Some (WithTiming 1 None None)
   \<and> overlay (onFinish vh evt s) = overlay s
   \<and> js_calls (onFinish vh evt s) = js_calls s
   \<and> cur (translateY (animation_done CellTranslateY (onFinish vh evt s))) = 0
   \<and> cur (scale (animation_done CellScale (onFinish vh evt s))) = 1
   \<and> cur (overlayOpacity (animation_done CellOverlayOpacity (onFinish vh evt s))) = 1
   \<and> overlay (animation_done CellOverlayOpacity (animation_done CellScale
         (animation_done CellTranslateY (onFinish vh evt s)))) = overlay s
   \<and> js_calls (animation_done CellOverlayOpacity (animation_done CellScale
         (animation_done CellTranslateY (onFinish vh evt s)))) = js_calls s"
proof -
  from assms have "\<not> commits_dismiss vh evt s"
    by (auto simp: commits_dismiss_def finalYPosition_def)
  then show ?thesis
    by (simp add: onFinish_def cell_ops animation_done_def)
qed

theorem release_snaps_back_witness:
  "(100 + 0 * 0.1 \<le> halfScreenHeight vh_800 \<or> cur (translateY (dragged 100)) \<le> 0)
   \<and> anim (translateY (onFinish vh_800 \<lparr>translationY = 100, velocityY = 0\<rparr> (dragged 100)))
       = Some (WithTiming 0 None None)
   \<and> anim (scale (onFinish vh_800 \<lparr>translationY = 100, velocityY = 0\<rparr> (dragged 100)))
       = Some (WithTiming 1 None None)
   \<and> anim (overlayOpacity (onFinish vh_800 \<lparr>translationY = 100, velocityY = 0\<rparr> (dragged 100)))
       = Some (WithTiming 1 None None)
   \<and> js_calls (onFinish vh_800 \<lparr>translationY = 100, velocityY = 0\<rparr> (dragged 100)) = []"
proof -
  have h: "translationY \<lparr>translationY = 100, velocityY = 0\<rparr>
             + velocityY \<lparr>translationY = 100, velocityY = 0\<rparr> * 0.1 \<le> halfScreenHeight vh_800
           \<or> cur (translateY (dragged 100)) \<le> 0"
    by (simp add: halfScreenHeight_def vh_800_def)
  have c: "js_calls (dragged 100) = []"
    by (simp add: drag_defs cell_ops)
  show ?thesis
    using release_snaps_back [OF h] h c by simp
qed

text \<open>
  C1 as the claim states it fails: with \<open>translateY\<close> at 100, below the half height
  400, a release at 5000 units per second projects to 600 and starts the dismissal
  (opacity fading to 0 with the dismissal callback, position flung by a decay).
\<close>

theorem release_low_translateY_fast_counterexample:
  "cur (translateY (dragged 100)) = 100
   \<and> cur (translateY (dragged 100)) \<le> halfScreenHeight vh_800
   \<and> anim (overlayOpacity
        (onFinish vh_800 \<lparr>translationY = 100, velocityY = 5000\<rparr> (dragged 100)))
       = Some (WithTiming 0 (Some \<lparr>duration = 200, easing = EaseOutEase\<rparr>)
                (Some DismissCallback))
   \<and> anim (translateY
        (onFinish vh_800 \<lparr>translationY = 100, velocityY = 5000\<rparr> (dragged 100)))
       = Some (WithDecay 5000)
   \<and> anim (translateY
        (onFinish vh_800 \<lparr>translationY = 100, velocityY = 5000\<rparr> (dragged 100)))
       \<noteq> Some (WithTiming 0 None None)"
  by (simp add: drag_defs cell_ops onFinish_def commits_dismiss_def finalYPosition_def
      fade_out_timing_def)

text \<open>
  C2, as the program has it. A release that commits to dismiss (projected position above
  \<open>halfScreenHeight\<close> and \<open>translateY\<close> positive) animates the overlay opacity to 0
  over 200 ms with ease-out, and the position by a decay carrying the release velocity
  exactly when \<open>velocityY\<close> itself (signed, not its absolute value) exceeds 1000;
  otherwise by a timing animation to the full screen height over 200 ms with ease-out.
\<close>

theorem dismiss_position_animation:
  assumes "translationY evt + velocityY evt * 0.1 > halfScreenHeight vh"
    and "cur (translateY s) > 0"
  shows "anim (overlayOpacity (onFinish vh evt s))
           = Some (WithTiming 0 (Some \<lparr>duration = 200, easing = EaseOutEase\<rparr>)
                    (Some DismissCallback))
   \<and> anim (translateY (onFinish vh evt s))
       = Some (if velocityY evt > 1000
               then WithDecay (velocityY evt)
               else WithTiming (screenHeight vh)
                      (Some \<lparr>duration = 200, easing = EaseOutEase\<rparr>) None)
   \<and> ((\<exists>v. anim (translateY (onFinish vh evt s)) = Some (WithDecay v))
        \<longleftrightarrow> velocityY evt > 1000)
   \<and> cur (translateY (onFinish vh evt s)) = cur (translateY s)
   \<and> cur (overlayOpacity (onFinish vh evt s)) = cur (overlayOpacity s)"
proof -
  from assms have "commits_dismiss vh evt s"
    by (simp add: commits_dismiss_def finalYPosition_def)
  then show ?thesis
    by (simp add: onFinish_def cell_ops fade_out_timing_def)
qed

theorem dismiss_position_animation_witness:
  "500 + 0 * 0.1 > halfScreenHeight vh_800 \<and> cur (translateY (dragged 500)) > 0
   \<and> anim (overlayOpacity (onFinish vh_800 \<lparr>translationY = 500, velocityY = 0\<rparr> (dragged 500)))
       = Some (WithTiming 0 (Some \<lparr>duration = 200, easing = EaseOutEase\<rparr>)
                (Some DismissCallback))
   \<and> anim (translateY (onFinish vh_800 \<lparr>translationY = 500, velocityY = 0\<rparr> (dragged 500)))
       = Some (WithTiming 800 (Some \<lparr>duration = 200, easing = EaseOutEase\<rparr>) None)"
proof -
  have h1: "translationY \<lparr>translationY = 500, velocityY = 0\<rparr>
              + velocityY \<lparr>translationY = 500, velocityY = 0\<rparr> * 0.1 > halfScreenHeight vh_800"
    by (simp add: halfScreenHeight_def vh_800_def)
  have h2: "cur (translateY (dragged 500)) > 0"
    by (simp add: drag_defs cell_ops)
  show ?thesis
    using dismiss_position_animation [OF h1 h2] h1 h2
    by (simp add: screenHeight_def vh_800_def)
qed

text \<open>
  C2 as the claim states it fails for a fast upward release: dragged down by 700 and
  released at -1500 units per second, the projection 550 still exceeds 400, the absolute
  velocity exceeds 1000, and the position gets the 200 ms timing animation, not a decay.
\<close>

theorem upward_fast_release_counterexample:
  "finalYPosition \<lparr>translationY = 700, velocityY = - 1500\<rparr> > halfScreenHeight vh_800
   \<and> cur (translateY (dragged 700)) > 0
   \<and> \<bar>velocityY \<lparr>translationY = 700, velocityY = - 1500\<rparr>\<bar> > 1000
   \<and> anim (translateY
        (onFinish vh_800 \<lparr>translationY = 700, velocityY = - 1500\<rparr> (dragged 700)))
       = Some (WithTiming 800 (Some \<lparr>duration = 200, easing = EaseOutEase\<rparr>) None)"
  by (simp add: drag_defs cell_ops onFinish_def commits_dismiss_def finalYPosition_def
      fade_out_timing_def)

text \<open>
  C3, as the program has it. In a dismissal started by a pan release the overlay kind
  is set to \<open>none\<close> when the 200 ms opacity animation completes, by its completion
  callback, and by nothing else: the release handler itself leaves the overlay kind as it
  is and hands nothing to the application context, and the position animation carries no
  callback (its completion changes neither the overlay kind nor the calls handed over).
  The completion of the opacity animation hands over exactly \<open>setOverlay('none')\<close> and
  leaves the position animation as it is, so the position animation can still be in
  flight when the kind becomes \<open>none\<close>.
\<close>

theorem dismiss_sets_overlay_on_completion:
  assumes "translationY evt + velocityY evt * 0.1 > halfScreenHeight vh"
    and "cur (translateY s) > 0"
  shows "overlay (onFinish vh evt s) = overlay s
   \<and> js_calls (onFinish vh evt s) = js_calls s
   \<and> map_option callback_of (anim (overlayOpacity (onFinish vh evt s)))
       = Some (Some DismissCallback)
   \<and> map_option callback_of (anim (translateY (onFinish vh evt s))) = Some None
   \<and> overlay (animation_done CellTranslateY (onFinish vh evt s)) = overlay s
   \<and> js_calls (animation_done CellTranslateY (onFinish vh evt s)) = js_calls s
   \<and> overlay (animation_done CellOverlayOpacity (onFinish vh evt s)) = OvNone
   \<and> js_calls (animation_done CellOverlayOpacity (onFinish vh evt s))
       = js_calls s @ [SetOverlay OvNone]
   \<and> translateY (animation_done CellOverlayOpacity (onFinish vh evt s))
       = translateY (onFinish vh evt s)
   \<and> anim (translateY (animation_done CellOverlayOpacity (onFinish vh evt s))) \<noteq> None"
proof -
  from assms have "commits_dismiss vh evt s"
    by (simp add: commits_dismiss_def finalYPosition_def)
  then show ?thesis
    by (simp add: onFinish_def cell_ops fade_out_timing_def animation_done_def)
qed

theorem dismiss_sets_overlay_on_completion_witness:
  "500 + 2000 * 0.1 > halfScreenHeight vh_800 \<and> cur (translateY (dragged 500)) > 0
   \<and> overlay (onFinish vh_800 \<lparr>translationY = 500, velocityY = 2000\<rparr> (dragged 500))
       = OvMessage
   \<and> js_calls (onFinish vh_800 \<lparr>translationY = 500, velocityY = 2000\<rparr> (dragged 500)) = []
   \<and> overlay (animation_done CellOverlayOpacity
        (onFinish vh_800 \<lparr>translationY = 500, velocityY = 2000\<rparr> (dragged 500))) = OvNone
   \<and> js_calls (animation_done CellOverlayOpacity
        (onFinish vh_800 \<lparr>translationY = 500, velocityY = 2000\<rparr> (dragged 500)))
       = [SetOverlay OvNone]"
proof -
  have h1: "translationY \<lparr>translationY = 500, velocityY = 2000\<rparr>
              + velocityY \<lparr>translationY = 500, velocityY = 2000\<rparr> * 0.1
              > halfScreenHeight vh_800"
    by (simp add: halfScreenHeight_def vh_800_def)
  have h2: "cur (translateY (dragged 500)) > 0"
    by (simp add: drag_defs cell_ops)
  have c: "js_calls (dragged 500) = []" "overlay (dragged 500) = OvMessage"
    by (simp_all add: drag_defs cell_ops)
  show ?thesis
    using dismiss_sets_overlay_on_completion [OF h1 h2] h1 h2 c by simp
qed

text \<open>
  C3 as the claim states it fails when the dismissal animation is the position
  animation: dragged down by 600 and released at 3000 units per second the bubble is
  flung by a decay; the opacity animation completes, the overlay kind is \<open>none\<close>, and
  the decay of \<open>translateY\<close> is still in flight.
\<close>

theorem overlay_none_during_fling_counterexample:
  "finalYPosition \<lparr>translationY = 600, velocityY = 3000\<rparr> > halfScreenHeight vh_800
   \<and> cur (translateY (dragged 600)) > 0
   \<and> overlay (onFinish vh_800 \<lparr>translationY = 600, velocityY = 3000\<rparr> (dragged 600))
       = OvMessage
   \<and> overlay (animation_done CellOverlayOpacity
        (onFinish vh_800 \<lparr>translationY = 600, velocityY = 3000\<rparr> (dragged 600))) = OvNone
   \<and> anim (translateY (animation_done CellOverlayOpacity
        (onFinish vh_800 \<lparr>translationY = 600, velocityY = 3000\<rparr> (dragged 600))))
       = Some (WithDecay 3000)"
  by (simp add: drag_defs cell_ops onFinish_def commits_dismiss_def finalYPosition_def
      fade_out_timing_def)



text \<open>
  C8, as the program has it. The completion callbacks do not look at the overlay kind:
  whatever kind the overlay has when the dismissal's opacity animation completes, the
  callback hands over \<open>setOverlay('none')\<close> and the kind becomes \<open>none\<close>; whatever kind
  it has when the hide animation completes, the callback hands over \<open>reset()\<close>. (The one
  test in the hide callback is on the captured argument \<open>show\<close>, which is false wherever
  that callback is installed.)
\<close>

theorem completion_callbacks_ignore_overlay_kind:
  assumes "translationY evt + velocityY evt * 0.1 > halfScreenHeight vh"
    and "cur (translateY s) > 0"
  shows "overlay (animation_done CellOverlayOpacity ((onFinish vh evt s)\<lparr>overlay := k\<rparr>))
           = OvNone
   \<and> js_calls (animation_done CellOverlayOpacity ((onFinish vh evt s)\<lparr>overlay := k\<rparr>))
       = js_calls s @ [SetOverlay OvNone]
   \<and> js_calls (animation_done CellShowScreen ((visible_effect (Some False) s)\<lparr>overlay := k\<rparr>))
       = js_calls s @ [Reset]"
proof -
  from assms have "commits_dismiss vh evt s"
    by (simp add: commits_dismiss_def finalYPosition_def)
  then show ?thesis
    by (simp add: onFinish_def cell_ops fade_out_timing_def animation_done_def
        visible_effect_def fadeScreen_def hide_timing_def)
qed

theorem completion_callbacks_ignore_overlay_kind_witness:
  "500 + 0 * 0.1 > halfScreenHeight vh_800 \<and> cur (translateY (dragged 500)) > 0
   \<and> overlay (animation_done CellOverlayOpacity
        ((onFinish vh_800 \<lparr>translationY = 500, velocityY = 0\<rparr> (dragged 500))
           \<lparr>overlay := OvAlert\<rparr>)) = OvNone
   \<and> js_calls (animation_done CellShowScreen
        ((visible_effect (Some False) (dragged 500))\<lparr>overlay := OvAlert\<rparr>)) = [Reset]"
proof -
  have h1: "translationY \<lparr>translationY = 500, velocityY = 0\<rparr>
              + velocityY \<lparr>translationY = 500, velocityY = 0\<rparr> * 0.1
              > halfScreenHeight vh_800"
    by (simp add: halfScreenHeight_def vh_800_def)
  have h2: "cur (translateY (dragged 500)) > 0"
    by (simp add: drag_defs cell_ops)
  have c: "js_calls (dragged 500) = []"
    by (simp add: drag_defs cell_ops)
  show ?thesis
    using completion_callbacks_ignore_overlay_kind [OF h1 h2, of OvAlert] h1 h2 c by simp
qed

text \<open>
  C8 as the claim states it fails: a dismissal starts while the overlay kind is
  \<open>message\<close>; the kind changes to \<open>gallery\<close> before the opacity animation completes;
  the completion callback is not a no-op, it sets the kind to \<open>none\<close>.
\<close>

theorem stale_dismiss_callback_counterexample:
  "overlay (onFinish vh_800 \<lparr>translationY = 500, velocityY = 0\<rparr> (dragged 500)) = OvMessage
   \<and> overlay (animation_done CellOverlayOpacity
        ((onFinish vh_800 \<lparr>translationY = 500, velocityY = 0\<rparr> (dragged 500))
           \<lparr>overlay := OvGallery\<rparr>)) = OvNone
   \<and> animation_done CellOverlayOpacity
        ((onFinish vh_800 \<lparr>translationY = 500, velocityY = 0\<rparr> (dragged 500))
           \<lparr>overlay := OvGallery\<rparr>)
       \<noteq> (onFinish vh_800 \<lparr>translationY = 500, velocityY = 0\<rparr> (dragged 500))
           \<lparr>overlay := OvGallery\<rparr>"
proof -
  have a: "overlay (onFinish vh_800 \<lparr>translationY = 500, velocityY = 0\<rparr> (dragged 500))
             = OvMessage"
    by (simp add: drag_defs cell_ops onFinish_def commits_dismiss_def finalYPosition_def
        fade_out_timing_def)
  have b: "overlay (animation_done CellOverlayOpacity
        ((onFinish vh_800 \<lparr>translationY = 500, velocityY = 0\<rparr> (dragged 500))
           \<lparr>overlay := OvGallery\<rparr>)) = OvNone"
    by (simp add: drag_defs cell_ops onFinish_def commits_dismiss_def finalYPosition_def
        fade_out_timing_def)
  have "overlay ((onFinish vh_800 \<lparr>translationY = 500, velocityY = 0\<rparr> (dragged 500))
           \<lparr>overlay := OvGallery\<rparr>) = OvGallery"
    by simp
  with b have c: "animation_done CellOverlayOpacity
        ((onFinish vh_800 \<lparr>translationY = 500, velocityY = 0\<rparr> (dragged 500))
           \<lparr>overlay := OvGallery\<rparr>)
       \<noteq> (onFinish vh_800 \<lparr>translationY = 500, velocityY = 0\<rparr> (dragged 500))
           \<lparr>overlay := OvGallery\<rparr>"
    by (metis overlay_kind.distinct(3))
  from a b c show ?thesis by simp
qed

subsection \<open>The derived opacity and scale\<close>

lemma interpolate_clamp_inside:
  "x0 < x \<Longrightarrow> x < x1 \<Longrightarrow>
     interpolate_clamp x (x0, x1) (y0, y1) = y0 + (x - x0) / (x1 - x0) * (y1 - y0)"
  by (simp add: interpolate_clamp_def)

lemma interpolate_clamp_lower:
  assumes le: "y1 \<le> y0"
  shows "y1 \<le> interpolate_clamp x (x0, x1) (y0, y1)"
proof (cases "x \<le> x0 \<or> x1 \<le> x")
  case True
  then show ?thesis using le by (auto simp: interpolate_clamp_def)
next
  case False
  then have r: "x0 < x" "x < x1" by auto
  define t where "t = (x - x0) / (x1 - x0)"
  have "t \<le> 1" using r by (simp add: t_def)
  then have "t * (y0 - y1) \<le> 1 * (y0 - y1)"
    using le by (intro mult_right_mono) auto
  then have "y1 \<le> y0 + t * (y1 - y0)" by (simp add: algebra_simps)
  then show ?thesis using r by (simp add: interpolate_clamp_inside t_def)
qed

lemma interpolate_clamp_upper:
  assumes le: "y1 \<le> y0"
  shows "interpolate_clamp x (x0, x1) (y0, y1) \<le> y0"
proof (cases "x \<le> x0 \<or> x1 \<le> x")
  case True
  then show ?thesis using le by (auto simp: interpolate_clamp_def)
next
  case False
  then have r: "x0 < x" "x < x1" by auto
  define t where "t = (x - x0) / (x1 - x0)"
  have "0 \<le> t" using r by (simp add: t_def)
  then have "0 \<le> t * (y0 - y1)"
    using le by (intro mult_nonneg_nonneg) auto
  then have "y0 + t * (y1 - y0) \<le> y0" by (simp add: algebra_simps)
  then show ?thesis using r by (simp add: interpolate_clamp_inside t_def)
qed

lemma interpolate_clamp_antimono:
  assumes le: "y1 \<le> y0" and ab: "a \<le> b"
  shows "interpolate_clamp b (x0, x1) (y0, y1) \<le> interpolate_clamp a (x0, x1) (y0, y1)"
proof (cases "a \<le> x0")
  case True
  then have "interpolate_clamp a (x0, x1) (y0, y1) = y0"
    by (simp add: interpolate_clamp_def)
  then show ?thesis using interpolate_clamp_upper [OF le] by simp
next
  case a: False
  show ?thesis
  proof (cases "x1 \<le> b")
    case True
    then have "interpolate_clamp b (x0, x1) (y0, y1) = y1"
      using a ab by (simp add: interpolate_clamp_def)
    then show ?thesis using interpolate_clamp_lower [OF le] by simp
  next
    case b: False
    have pos: "0 < x1 - x0" using a b ab by simp
    have "(a - x0) / (x1 - x0) \<le> (b - x0) / (x1 - x0)"
      using ab pos by (simp add: divide_right_mono)
    then have "(b - x0) / (x1 - x0) * (y1 - y0) \<le> (a - x0) / (x1 - x0) * (y1 - y0)"
      using le by (intro mult_right_mono_neg) auto
    then show ?thesis using a b ab by (simp add: interpolate_clamp_def)
  qed
qed

lemma onActive_translateY:
  "cur (translateY (onActive vh e s)) = cur (offsetY s) + translationY e"
  by (simp add: onActive_def cell_ops)

lemma onActive_opacity:
  "cur (overlayOpacity (onActive vh e s)) =
     interpolate_clamp (cur (offsetY s) + translationY e) (0, halfScreenHeight vh) (1, 0.75)"
  by (simp add: onActive_def cell_ops)

lemma onActive_scale:
  "cur (scale (onActive vh e s)) =
     interpolate_clamp (cur (offsetY s) + translationY e) (0, halfScreenHeight vh) (1, 0.85)"
  by (simp add: onActive_def cell_ops)

text \<open>
  C6. After every pan update the overlay opacity lies between 0.75 and 1 and the scale
  between 0.85 and 1; both are non-increasing in \<open>translateY\<close> (compared over two
  updates of the same gesture); at \<open>translateY \<le> 0\<close> they are 1 and 1, at
  \<open>translateY \<ge> halfScreenHeight\<close> they are 0.75 and 0.85, and in between they are the
  linear interpolation from 1 to 0.75 and from 1 to 0.85.
\<close>

theorem drag_opacity_scale_monotone_clamped:
  "0.75 \<le> cur (overlayOpacity (onActive vh e s))
   \<and> cur (overlayOpacity (onActive vh e s)) \<le> 1
   \<and> 0.85 \<le> cur (scale (onActive vh e s))
   \<and> cur (scale (onActive vh e s)) \<le> 1
   \<and> (cur (translateY (onActive vh e1 s)) \<le> cur (translateY (onActive vh e2 s)) \<longrightarrow>
        cur (overlayOpacity (onActive vh e2 s)) \<le> cur (overlayOpacity (onActive vh e1 s))
        \<and> cur (scale (onActive vh e2 s)) \<le> cur (scale (onActive vh e1 s)))
   \<and> (cur (translateY (onActive vh e s)) \<le> 0 \<longrightarrow>
        cur (overlayOpacity (onActive vh e s)) = 1 \<and> cur (scale (onActive vh e s)) = 1)
   \<and> (0 < cur (translateY (onActive vh e s))
        \<and> halfScreenHeight vh \<le> cur (translateY (onActive vh e s)) \<longrightarrow>
        cur (overlayOpacity (onActive vh e s)) = 0.75
        \<and> cur (scale (onActive vh e s)) = 0.85)
   \<and> (0 < cur (translateY (onActive vh e s))
        \<and> cur (translateY (onActive vh e s)) < halfScreenHeight vh \<longrightarrow>
        cur (overlayOpacity (onActive vh e s))
          = 1 - 0.25 * cur (translateY (onActive vh e s)) / halfScreenHeight vh
        \<and> cur (scale (onActive vh e s))
          = 1 - 0.15 * cur (translateY (onActive vh e s)) / halfScreenHeight vh)"
proof -
  have b1: "0.75 \<le> cur (overlayOpacity (onActive vh e s))"
    unfolding onActive_opacity by (rule interpolate_clamp_lower) simp
  have b2: "cur (overlayOpacity (onActive vh e s)) \<le> 1"
    unfolding onActive_opacity by (rule interpolate_clamp_upper) simp
  have b3: "0.85 \<le> cur (scale (onActive vh e s))"
    unfolding onActive_scale by (rule interpolate_clamp_lower) simp
  have b4: "cur (scale (onActive vh e s)) \<le> 1"
    unfolding onActive_scale by (rule interpolate_clamp_upper) simp
  have m: "cur (translateY (onActive vh e1 s)) \<le> cur (translateY (onActive vh e2 s)) \<longrightarrow>
        cur (overlayOpacity (onActive vh e2 s)) \<le> cur (overlayOpacity (onActive vh e1 s))
        \<and> cur (scale (onActive vh e2 s)) \<le> cur (scale (onActive vh e1 s))"
    unfolding onActive_opacity onActive_scale onActive_translateY
    by (simp add: interpolate_clamp_antimono)
  have lo: "cur (translateY (onActive vh e s)) \<le> 0 \<longrightarrow>
        cur (overlayOpacity (onActive vh e s)) = 1 \<and> cur (scale (onActive vh e s)) = 1"
    unfolding onActive_opacity onActive_scale onActive_translateY
    by (simp add: interpolate_clamp_def)
  have hi: "0 < cur (translateY (onActive vh e s))
        \<and> halfScreenHeight vh \<le> cur (translateY (onActive vh e s)) \<longrightarrow>
        cur (overlayOpacity (onActive vh e s)) = 0.75
        \<and> cur (scale (onActive vh e s)) = 0.85"
    unfolding onActive_opacity onActive_scale onActive_translateY
    by (simp add: interpolate_clamp_def)
  have mid: "0 < cur (translateY (onActive vh e s))
        \<and> cur (translateY (onActive vh e s)) < halfScreenHeight vh \<longrightarrow>
        cur (overlayOpacity (onActive vh e s))
          = 1 - 0.25 * cur (translateY (onActive vh e s)) / halfScreenHeight vh
        \<and> cur (scale (onActive vh e s))
          = 1 - 0.15 * cur (translateY (onActive vh e s)) / halfScreenHeight vh"
    unfolding onActive_opacity onActive_scale onActive_translateY
    by (simp add: interpolate_clamp_def field_simps)
  from b1 b2 b3 b4 m lo hi mid show ?thesis by blast
qed

theorem drag_opacity_scale_monotone_clamped_witness:
  "cur (translateY (dragged 100)) \<le> cur (translateY (dragged 200))
   \<and> cur (overlayOpacity (dragged 200)) \<le> cur (overlayOpacity (dragged 100))
   \<and> cur (scale (dragged 200)) \<le> cur (scale (dragged 100))
   \<and> cur (translateY (dragged (- 50))) \<le> 0
   \<and> cur (overlayOpacity (dragged (- 50))) = 1 \<and> cur (scale (dragged (- 50))) = 1
   \<and> 0 < cur (translateY (dragged 500))
   \<and> halfScreenHeight vh_800 \<le> cur (translateY (dragged 500))
   \<and> cur (overlayOpacity (dragged 500)) = 0.75 \<and> cur (scale (dragged 500)) = 0.85
   \<and> 0 < cur (translateY (dragged 200))
   \<and> cur (translateY (dragged 200)) < halfScreenHeight vh_800
   \<and> cur (overlayOpacity (dragged 200)) = 0.875 \<and> cur (scale (dragged 200)) = 0.925"
proof -
  have t: "cur (translateY (dragged 100)) = 100" "cur (translateY (dragged 200)) = 200"
    "cur (translateY (dragged (- 50))) = - 50" "cur (translateY (dragged 500)) = 500"
    "halfScreenHeight vh_800 = 400"
    by (simp_all add: drag_defs cell_ops)
  note inst = drag_opacity_scale_monotone_clamped
  show ?thesis
    using
      inst [where vh = vh_800 and s = "onStart shown"
          and e = "\<lparr>translationY = 200, velocityY = 0\<rparr>"
          and ?e1.0 = "\<lparr>translationY = 100, velocityY = 0\<rparr>"
          and ?e2.0 = "\<lparr>translationY = 200, velocityY = 0\<rparr>"]
      inst [where vh = vh_800 and s = "onStart shown"
          and e = "\<lparr>translationY = - 50, velocityY = 0\<rparr>"
          and ?e1.0 = "\<lparr>translationY = 100, velocityY = 0\<rparr>"
          and ?e2.0 = "\<lparr>translationY = 200, velocityY = 0\<rparr>"]
      inst [where vh = vh_800 and s = "onStart shown"
          and e = "\<lparr>translationY = 500, velocityY = 0\<rparr>"
          and ?e1.0 = "\<lparr>translationY = 100, velocityY = 0\<rparr>"
          and ?e2.0 = "\<lparr>translationY = 200, velocityY = 0\<rparr>"]
      t
    unfolding dragged_def [symmetric]
    by simp
qed

subsection \<open>Re-render suppression and the bubble background\<close>

lemma every_indexed_nth: "every_indexed f xs \<longleftrightarrow> (\<forall>i<length xs. f (xs ! i) i)"
proof
  assume a: "every_indexed f xs"
  show "\<forall>i<length xs. f (xs ! i) i"
  proof (intro allI impI)
    fix i assume i: "i < length xs"
    then have "(xs ! i, [0..<length xs] ! i) \<in> set (zip xs [0..<length xs])"
      by (auto simp: set_zip)
    with a have "f (xs ! i) ([0..<length xs] ! i)"
      by (auto simp: every_indexed_def list_all_iff)
    with i show "f (xs ! i) i" by simp
  qed
next
  assume "\<forall>i<length xs. f (xs ! i) i"
  then show "every_indexed f xs"
    by (auto simp: every_indexed_def list_all_iff set_zip)
qed

lemma same_kinds_by_index:
  "(length a = length b
     \<and> every_indexed (\<lambda>r index. reaction_type r = reaction_type (b ! index)) a)
   \<longleftrightarrow> map reaction_type a = map reaction_type b"
  by (auto simp: every_indexed_nth list_eq_iff_nth_eq)

lemma latestReactionsEqual_kinds:
  "latestReactionsEqual p n \<longleftrightarrow> reaction_kinds p = reaction_kinds n"
  by (simp add: latestReactionsEqual_def reaction_kinds_def same_kinds_by_index
      split: option.splits)

text \<open>
  C7. \<open>areEqual\<close> answers ``skip the render'' exactly when \<open>visible\<close>, the alignment,
  the reaction-summary title and the ordered list of latest-reaction kinds are all
  unchanged. Reactions count by kind only: changing the message text and the users of
  the reactions, together with props outside the four, still answers ``skip''.
\<close>

theorem areEqual_iff_four_comparisons:
  "(areEqual p n \<longleftrightarrow>
      visible p = visible n \<and> alignment p = alignment n
      \<and> messageReactionTitle p = messageReactionTitle n
      \<and> reaction_kinds p = reaction_kinds n)
   \<and> areEqual p
        (p\<lparr>message :=
             map_option
               (\<lambda>m. m\<lparr>message_text := t,
                       latest_reactions :=
                         map_option (map (\<lambda>r. r\<lparr>user_id := u\<rparr>)) (latest_reactions m)\<rparr>)
               (message p),
           onlyEmojis := e, otherAttachments := oa\<rparr>)"
proof -
  have iff: "areEqual p n \<longleftrightarrow>
      visible p = visible n \<and> alignment p = alignment n
      \<and> messageReactionTitle p = messageReactionTitle n
      \<and> reaction_kinds p = reaction_kinds n" for p n
    by (auto simp: areEqual_def latestReactionsEqual_kinds)
  have kinds: "reaction_kinds
        (p\<lparr>message :=
             map_option
               (\<lambda>m. m\<lparr>message_text := t,
                       latest_reactions :=
                         map_option (map (\<lambda>r. r\<lparr>user_id := u\<rparr>)) (latest_reactions m)\<rparr>)
               (message p),
           onlyEmojis := e, otherAttachments := oa\<rparr>) = reaction_kinds p"
    by (simp add: reaction_kinds_def latest_of_def option.map_comp comp_def
        split: option.splits)
  show ?thesis
    using iff [of p n] kinds by (simp add: iff)
qed

theorem areEqual_iff_four_comparisons_witness:
  "areEqual props_before props_after
   \<and> reaction_kinds props_before = Some [''like'', ''love'']
   \<and> reaction_kinds props_after = Some [''like'', ''love'']
   \<and> message props_before \<noteq> message props_after
   \<and> \<not> areEqual props_before props_reordered
   \<and> \<not> areEqual props_before (props_before\<lparr>visible := None\<rparr>)
   \<and> \<not> areEqual props_before (props_before\<lparr>alignment := Some AlignRight\<rparr>)
   \<and> \<not> areEqual props_before (props_before\<lparr>messageReactionTitle := None\<rparr>)"
proof -
  have k: "reaction_kinds props_before = Some [''like'', ''love'']"
    "reaction_kinds props_after = Some [''like'', ''love'']"
    "reaction_kinds props_reordered = Some [''love'', ''like'']"
    "reaction_kinds (props_before\<lparr>visible := None\<rparr>) = Some [''like'', ''love'']"
    "reaction_kinds (props_before\<lparr>alignment := Some AlignRight\<rparr>) = Some [''like'', ''love'']"
    "reaction_kinds (props_before\<lparr>messageReactionTitle := None\<rparr>) = Some [''like'', ''love'']"
    by (simp_all add: reaction_kinds_def latest_of_def props_before_def props_after_def
        props_reordered_def)
  have f: "visible props_before = Some True" "visible props_after = Some True"
    "visible props_reordered = Some True"
    "alignment props_before = Some AlignLeft" "alignment props_after = Some AlignLeft"
    "alignment props_reordered = Some AlignLeft"
    "messageReactionTitle props_before = Some ''Message Reactions''"
    "messageReactionTitle props_after = Some ''Message Reactions''"
    "messageReactionTitle props_reordered = Some ''Message Reactions''"
    by (simp_all add: props_before_def props_after_def props_reordered_def)
  have d: "message props_before \<noteq> message props_after"
    by (simp add: props_before_def props_after_def)
  note inst = areEqual_iff_four_comparisons
  show ?thesis
    using inst [of props_before props_after] inst [of props_before props_reordered]
      inst [of props_before "props_before\<lparr>visible := None\<rparr>"]
      inst [of props_before "props_before\<lparr>alignment := Some AlignRight\<rparr>"]
      inst [of props_before "props_before\<lparr>messageReactionTitle := None\<rparr>"]
      k f d
    by simp
qed

text \<open>
  C9. The bubble background is a function of the content class alone: an emoji-only
  message without a quoted message gets \<open>transparent\<close>; otherwise a message with other
  attachments gets \<open>blue_alice\<close>, or \<open>transparent\<close> when the first of them is a
  \<open>giphy\<close>; every remaining message gets \<open>white_smoke\<close> when aligned left and
  \<open>grey_gainsboro\<close> otherwise. Props and message parts outside the content class do not
  change the colour.
\<close>

theorem backgroundColor_by_content_class:
  "(onlyEmojis p \<and> quoted_message m = None \<longrightarrow> backgroundColor p m = transparent)
   \<and> (\<not> (onlyEmojis p \<and> quoted_message m = None) \<and> otherAttachments p = Some (a # as) \<longrightarrow>
        backgroundColor p m
          = (if attachment_type a = Some ''giphy'' then transparent else blue_alice))
   \<and> (\<not> (onlyEmojis p \<and> quoted_message m = None)
        \<and> (otherAttachments p = None \<or> otherAttachments p = Some []) \<longrightarrow>
        backgroundColor p m
          = (if alignment p = Some AlignLeft then white_smoke else grey_gainsboro))
   \<and> white_smoke \<noteq> grey_gainsboro
   \<and> backgroundColor (p\<lparr>visible := v, messageReactionTitle := t, message := mo\<rparr>)
        (m\<lparr>message_text := x, latest_reactions := lr\<rparr>) = backgroundColor p m"
  by (auto simp: backgroundColor_def split: option.splits list.splits)

theorem backgroundColor_by_content_class_witness:
  "backgroundColor (props_before\<lparr>onlyEmojis := True\<rparr>)
      \<lparr>message_text = ''hi'', latest_reactions = None, quoted_message = None\<rparr> = transparent
   \<and> backgroundColor
       (props_before\<lparr>otherAttachments :=
          Some [\<lparr>attachment_type = Some ''giphy'', attachment_title = ''g''\<rparr>]\<rparr>)
       \<lparr>message_text = ''hi'', latest_reactions = None, quoted_message = None\<rparr> = transparent
   \<and> backgroundColor
       (props_before\<lparr>otherAttachments :=
          Some [\<lparr>attachment_type = Some ''video'', attachment_title = ''v''\<rparr>]\<rparr>)
       \<lparr>message_text = ''hi'', latest_reactions = None, quoted_message = None\<rparr> = blue_alice
   \<and> backgroundColor props_before
       \<lparr>message_text = ''hi'', latest_reactions = None, quoted_message = None\<rparr> = white_smoke
   \<and> backgroundColor (props_before\<lparr>alignment := Some AlignRight, onlyEmojis := True\<rparr>)
       \<lparr>message_text = ''hi'', latest_reactions = None, quoted_message = Some ''q''\<rparr>
       = grey_gainsboro"
proof -
  note inst = backgroundColor_by_content_class
  let ?m = "\<lparr>message_text = ''hi'', latest_reactions = None, quoted_message = None\<rparr>"
  let ?q = "\<lparr>message_text = ''hi'', latest_reactions = None, quoted_message = Some ''q''\<rparr>"
  show ?thesis
    using inst [of "props_before\<lparr>onlyEmojis := True\<rparr>" ?m]
      inst [of "props_before\<lparr>otherAttachments :=
                  Some [\<lparr>attachment_type = Some ''giphy'', attachment_title = ''g''\<rparr>]\<rparr>" ?m
               "\<lparr>attachment_type = Some ''giphy'', attachment_title = ''g''\<rparr>" "[]"]
      inst [of "props_before\<lparr>otherAttachments :=
                  Some [\<lparr>attachment_type = Some ''video'', attachment_title = ''v''\<rparr>]\<rparr>" ?m
               "\<lparr>attachment_type = Some ''video'', attachment_title = ''v''\<rparr>" "[]"]
      inst [of props_before ?m]
      inst [of "props_before\<lparr>alignment := Some AlignRight, onlyEmojis := True\<rparr>" ?q]
    by (simp add: props_before_def)
qed

subsection \<open>The list of the channel files screen\<close>

text \<open>
  C10. Whatever messages were fetched, the \<open>SectionList\<close> of the channel files screen is
  given the empty list as its \<open>sections\<close> prop whenever it is mounted (there are grouped
  sections in the state, or nothing is loading), so it shows its empty-state component
  and never the monthly grouping the effect stored.
\<close>

theorem files_list_always_empty:
  "rendered_sections_prop (sections_effect fmt messages st)
     = (if grouped_sections fmt messages \<noteq> [] \<or> \<not> loading st then Some [] else None)
   \<and> (\<forall>secs. rendered_sections_prop (sections_effect fmt messages st) = Some secs \<longrightarrow>
         secs = [] \<and> section_list_shows secs = ListEmptyComponent)
   \<and> (grouped_sections fmt messages \<noteq> [] \<longrightarrow>
         rendered_sections_prop (sections_effect fmt messages st)
           \<noteq> Some (grouped_sections fmt messages))"
  by (auto simp: rendered_sections_prop_def sections_effect_def section_list_shows_def)

theorem files_list_always_empty_witness:
  "grouped_sections january two_messages
     = [\<lparr>data = [\<lparr>attachment_type = Some ''file'', attachment_title = ''a.pdf''\<rparr>],
         title = ''Jan 2021''\<rparr>]
   \<and> rendered_sections_prop
       (sections_effect january two_messages \<lparr>sections = [], loading = True\<rparr>) = Some []
   \<and> section_list_shows [] = ListEmptyComponent"
proof -
  have g: "grouped_sections january two_messages
     = [\<lparr>data = [\<lparr>attachment_type = Some ''file'', attachment_title = ''a.pdf''\<rparr>],
         title = ''Jan 2021''\<rparr>]"
    by (simp add: grouped_sections_def two_messages_def add_message_def january_def Let_def)
  show ?thesis
    using files_list_always_empty
      [of january two_messages "\<lparr>sections = [], loading = True\<rparr>"] g
    by (simp add: section_list_shows_def)
qed

end
